theory Spec2Isabelle
  imports Main
begin

section \<open>Http views and websocket commands of the config manager\<close>

text \<open>
  A shallow embedding of \<^verbatim>\<open>homeassistant/components/config/config_entries.py\<close>.
  Python dictionaries are maps, exceptions are values of the type \<open>error\<close>, and the
  state the views read and mutate (the entry registry, the flows in progress, the
  messages sent on a websocket connection) is passed explicitly.
\<close>

subsection \<open>Values\<close>

text \<open>JSON-serialisable Python values.\<close>

datatype json =
    JNull
  | JBool bool
  | JInt int
  | JStr string
  | JList "json list"
  | JDict "(string \<times> json) list"

text \<open>The exceptions the module raises or lets through.\<close>

datatype error =
    Unauthorized (config_entry_id: "string option") (perm_category: "string option")
      (permission: "string option")
  | UnknownEntry
  | KeyError string
  | AttributeError string
  | TypeError
  | Invalid

text \<open>
  Modelled from the spec: the class \<^verbatim>\<open>SystemOptions\<close> of \<^verbatim>\<open>homeassistant.config_entries\<close>
  is not part of the source at hand; section 3 gives \<open>system_options\<close> as the record
  \<^verbatim>\<open>{disable_new_entities: bool}\<close>, and \<open>as_dict\<close> is its dictionary form.
\<close>

record SystemOptions =
  disable_new_entities :: bool

definition as_dict :: "SystemOptions \<Rightarrow> json" where
  "as_dict opts = JDict [(''disable_new_entities'', JBool (disable_new_entities opts))]"

text \<open>
  Modelled from the spec: the class \<^verbatim>\<open>ConfigEntry\<close> is not part of the source at hand;
  the fields are those of section 3, which are also the attributes the views read.
\<close>

record config_entry =
  entry_id :: string
  domain :: string
  title :: string
  data :: json
  source :: string
  state :: string
  connection_class :: string
  system_options :: SystemOptions

text \<open>
  A value stored in a step result: JSON, a config entry object (the \<^verbatim>\<open>result\<close> of a
  finished config flow) or a validation schema (an object of the voluptuous library,
  opaque here).
\<close>

datatype 's pyval =
    PJson json
  | PEntry config_entry
  | PSchema 's

type_synonym 's step_result = "string \<rightharpoonup> 's pyval"

text \<open>
  Modelled from the spec: the constants of \<^verbatim>\<open>data_entry_flow\<close>, \<^verbatim>\<open>config_entries\<close> and
  \<^verbatim>\<open>auth.permissions.const\<close> are not part of the source at hand. Section 3 names the
  result types FORM and CREATE_ENTRY and the source USER; the strings are these names
  in lower case. No theorem below depends on the strings chosen.
\<close>

definition RESULT_TYPE_FORM :: string where
  "RESULT_TYPE_FORM = ''form''"

definition RESULT_TYPE_CREATE_ENTRY :: string where
  "RESULT_TYPE_CREATE_ENTRY = ''create_entry''"

definition SOURCE_USER :: string where
  "SOURCE_USER = ''user''"

definition CAT_CONFIG_ENTRIES :: string where
  "CAT_CONFIG_ENTRIES = ''config_entries''"

definition ERR_NOT_FOUND :: string where
  "ERR_NOT_FOUND = ''not_found''"

subsection \<open>Requests, responses and the state\<close>

record user =
  is_admin :: bool

record request =
  hass_user :: user

text \<open>
  What a view returns: \<^verbatim>\<open>self.json(result)\<close> (status 200 unless given) or
  \<^verbatim>\<open>self.json_message(message, status_code)\<close>.
\<close>

datatype response =
    View_json json
  | View_json_message string nat

text \<open>
  Modelled from the spec: a flow in progress, with the fields of section 3. The handler
  instance is a live object, opaque here.
\<close>

record 'h flow =
  flow_id :: string
  handler_key :: string
  flow_context :: "(string \<times> json) list"
  current_step_id :: string
  handler_instance :: 'h

text \<open>
  The state behind \<^verbatim>\<open>hass.config_entries\<close>: the entries in insertion order and the flows
  in progress.
\<close>

record 'h hass =
  entries :: "config_entry list"
  progress :: "'h flow list"

text \<open>
  The identity of the method \<^verbatim>\<open>async_get_options_flow\<close> of a handler class: the one
  inherited from \<^verbatim>\<open>ConfigFlow\<close>, or an override, named by the class that defines it.
\<close>

datatype options_flow_method =
    ConfigFlow_async_get_options_flow
  | Override_async_get_options_flow string

record handler_class =
  async_get_options_flow :: options_flow_method

text \<open>A websocket connection: its user and the messages sent on it, oldest first.\<close>

datatype ws_message =
    Result_message json json
  | Error_message json string string

record connection =
  conn_user :: user
  sent :: "ws_message list"

definition send_result :: "connection \<Rightarrow> json \<Rightarrow> json \<Rightarrow> connection" where
  "send_result conn msg_id res = conn\<lparr>sent := sent conn @ [Result_message msg_id res]\<rparr>"

definition send_error :: "connection \<Rightarrow> json \<Rightarrow> string \<Rightarrow> string \<Rightarrow> connection" where
  "send_error conn msg_id code message =
     conn\<lparr>sent := sent conn @ [Error_message msg_id code message]\<rparr>"

type_synonym 'h ws_outcome = "(error + unit) \<times> 'h hass \<times> connection"

subsection \<open>Python dictionary operations\<close>

text \<open>\<^verbatim>\<open>d[k]\<close> on a dictionary raises KeyError when the key is absent.\<close>

definition getitem :: "(string \<rightharpoonup> 'v) \<Rightarrow> string \<Rightarrow> error + 'v" where
  "getitem d k = (case d k of None \<Rightarrow> Inl (KeyError k) | Some v \<Rightarrow> Inr v)"

text \<open>\<^verbatim>\<open>d.pop(k)\<close> returns the value and the dictionary without the key, or raises KeyError.\<close>

definition pop :: "(string \<rightharpoonup> 'v) \<Rightarrow> string \<Rightarrow> error + ('v \<times> (string \<rightharpoonup> 'v))" where
  "pop d k = (case d k of None \<Rightarrow> Inl (KeyError k) | Some v \<Rightarrow> Inr (v, d(k := None)))"

text \<open>\<^verbatim>\<open>v[k]\<close> on a JSON value: only a dictionary can be indexed by a string.\<close>

definition json_getitem :: "json \<Rightarrow> string \<Rightarrow> error + json" where
  "json_getitem v k =
     (case v of
        JDict kvs \<Rightarrow> (case map_of kvs k of None \<Rightarrow> Inl (KeyError k) | Some x \<Rightarrow> Inr x)
      | _ \<Rightarrow> Inl TypeError)"

subsection \<open>\<^verbatim>\<open>_prepare_json\<close>\<close>

text \<open>
  \<^verbatim>\<open>voluptuous_serialize.convert\<close> belongs to a library and is a parameter: it gives the
  list of field descriptors of a schema.
\<close>

definition prepare_json ::
  "('s pyval \<Rightarrow> json list) \<Rightarrow> 's step_result \<Rightarrow> error + 's step_result" where
  "prepare_json convert result =
     (case result ''type'' of
        None \<Rightarrow> Inl (KeyError ''type'')
      | Some t \<Rightarrow>
          if t \<noteq> PJson (JStr RESULT_TYPE_FORM) then Inr result
          else
            (case result ''data_schema'' of
               None \<Rightarrow> Inl (KeyError ''data_schema'')
             | Some schema \<Rightarrow>
                 if schema = PJson JNull
                 then Inr (result(''data_schema'' \<mapsto> PJson (JList [])))
                 else Inr (result(''data_schema'' \<mapsto> PJson (JList (convert schema))))))"

subsection \<open>\<^verbatim>\<open>ConfigManagerEntryIndexView\<close>\<close>

text \<open>
  \<^verbatim>\<open>config_entries.HANDLERS\<close> is a registry from domains to handler classes, a
  parameter of the view.
\<close>

definition supports_options_of :: "(string \<rightharpoonup> handler_class) \<Rightarrow> config_entry \<Rightarrow> bool" where
  "supports_options_of HANDLERS entry =
     (case HANDLERS (domain entry) of
        None \<Rightarrow> False
      | Some handler \<Rightarrow> async_get_options_flow handler \<noteq> ConfigFlow_async_get_options_flow)"

definition entry_json :: "(string \<rightharpoonup> handler_class) \<Rightarrow> config_entry \<Rightarrow> json" where
  "entry_json HANDLERS entry =
     JDict
       [(''entry_id'', JStr (entry_id entry)),
        (''domain'', JStr (domain entry)),
        (''title'', JStr (title entry)),
        (''source'', JStr (source entry)),
        (''state'', JStr (state entry)),
        (''connection_class'', JStr (connection_class entry)),
        (''supports_options'', JBool (supports_options_of HANDLERS entry))]"

text \<open>\<^verbatim>\<open>hass.config_entries.async_entries()\<close> is the list of the entries.\<close>

definition async_entries :: "'h hass \<Rightarrow> config_entry list" where
  "async_entries hass = entries hass"

definition ConfigManagerEntryIndexView_get ::
  "(string \<rightharpoonup> handler_class) \<Rightarrow> request \<Rightarrow> 'h hass \<Rightarrow> (error + response) \<times> 'h hass" where
  "ConfigManagerEntryIndexView_get HANDLERS req hass =
     (Inr (View_json (JList (map (entry_json HANDLERS) (async_entries hass)))), hass)"

subsection \<open>\<^verbatim>\<open>ConfigManagerEntryResourceView\<close>\<close>

text \<open>
  \<^verbatim>\<open>hass.config_entries.async_remove\<close> is a parameter: it returns the removal outcome
  or raises, and leaves a new state.
\<close>

definition ConfigManagerEntryResourceView_delete ::
  "('h hass \<Rightarrow> string \<Rightarrow> (error + json) \<times> 'h hass) \<Rightarrow> request \<Rightarrow> string \<Rightarrow> 'h hass
     \<Rightarrow> (error + response) \<times> 'h hass" where
  "ConfigManagerEntryResourceView_delete async_remove req eid hass =
     (if \<not> is_admin (hass_user req)
      then (Inl (Unauthorized (Some eid) None (Some ''remove'')), hass)
      else
        (case async_remove hass eid of
           (Inl UnknownEntry, hass') \<Rightarrow>
             (Inr (View_json_message ''Invalid entry specified'' 404), hass')
         | (Inl e, hass') \<Rightarrow> (Inl e, hass')
         | (Inr res, hass') \<Rightarrow> (Inr (View_json res), hass')))"

subsection \<open>\<^verbatim>\<open>ConfigManagerFlowIndexView\<close> and \<^verbatim>\<open>ConfigManagerFlowResourceView\<close>\<close>

text \<open>
  Modelled from the spec: \<^verbatim>\<open>FlowManager.async_progress\<close> is not part of the source at
  hand. Section 4.2 (\<^verbatim>\<open>list_in_progress\<close>) gives a summary the fields \<^verbatim>\<open>flow_id\<close>,
  \<^verbatim>\<open>handler_key\<close>, \<^verbatim>\<open>context\<close> and \<^verbatim>\<open>current_step_id\<close>, and never the handler instance.
\<close>

definition flow_summary :: "'h flow \<Rightarrow> json" where
  "flow_summary flw =
     JDict
       [(''flow_id'', JStr (flow_id flw)),
        (''handler_key'', JStr (handler_key flw)),
        (''context'', JDict (flow_context flw)),
        (''current_step_id'', JStr (current_step_id flw))]"

definition async_progress :: "'h hass \<Rightarrow> json list" where
  "async_progress hass = map flow_summary (progress hass)"

text \<open>
  The list comprehension of \<^verbatim>\<open>get\<close>: it keeps the summaries whose context source is
  not USER, and raises at the first summary that has no context or no source.
\<close>

fun not_user_flows :: "json list \<Rightarrow> error + json list" where
  "not_user_flows [] = Inr []"
| "not_user_flows (flw # flws) =
     (case json_getitem flw ''context'' of
        Inl e \<Rightarrow> Inl e
      | Inr ctx \<Rightarrow>
          (case json_getitem ctx ''source'' of
             Inl e \<Rightarrow> Inl e
           | Inr src \<Rightarrow>
               (case not_user_flows flws of
                  Inl e \<Rightarrow> Inl e
                | Inr rest \<Rightarrow> Inr (if src \<noteq> JStr SOURCE_USER then flw # rest else rest))))"

definition ConfigManagerFlowIndexView_get ::
  "request \<Rightarrow> 'h hass \<Rightarrow> (error + response) \<times> 'h hass" where
  "ConfigManagerFlowIndexView_get req hass =
     (if \<not> is_admin (hass_user req)
      then (Inl (Unauthorized None (Some CAT_CONFIG_ENTRIES) (Some ''add'')), hass)
      else
        (case not_user_flows (async_progress hass) of
           Inl e \<Rightarrow> (Inl e, hass)
         | Inr flws \<Rightarrow> (Inr (View_json (JList flws)), hass)))"

text \<open>
  The \<^verbatim>\<open>post\<close> and \<^verbatim>\<open>get\<close> methods of the base classes \<^verbatim>\<open>FlowManagerIndexView\<close> and
  \<^verbatim>\<open>FlowManagerResourceView\<close> are parameters (\<open>super_post\<close>, \<open>super_get\<close>).
\<close>

definition ConfigManagerFlowIndexView_post ::
  "(request \<Rightarrow> 'st \<Rightarrow> (error + 'r) \<times> 'st) \<Rightarrow> request \<Rightarrow> 'st \<Rightarrow> (error + 'r) \<times> 'st" where
  "ConfigManagerFlowIndexView_post super_post req hass =
     (if \<not> is_admin (hass_user req)
      then (Inl (Unauthorized None (Some CAT_CONFIG_ENTRIES) (Some ''add'')), hass)
      else super_post req hass)"

text \<open>
  \<^verbatim>\<open>_prepare_result_json\<close> of the base class is a parameter
  (\<open>super_prepare_result_json\<close>).
\<close>

definition ConfigManagerFlowIndexView_prepare_result_json ::
  "('s step_result \<Rightarrow> error + 's step_result) \<Rightarrow> 's step_result \<Rightarrow> error + 's step_result"
  where
  "ConfigManagerFlowIndexView_prepare_result_json super_prepare_result_json result =
     (case result ''type'' of
        None \<Rightarrow> Inl (KeyError ''type'')
      | Some t \<Rightarrow>
          if t \<noteq> PJson (JStr RESULT_TYPE_CREATE_ENTRY) then super_prepare_result_json result
          else
            (case result ''result'' of
               None \<Rightarrow> Inl (KeyError ''result'')
             | Some (PEntry entry) \<Rightarrow>
                 (case pop (result(''result'' \<mapsto> PJson (JStr (entry_id entry)))) ''data'' of
                    Inl e \<Rightarrow> Inl e
                  | Inr (_, prepared) \<Rightarrow> Inr prepared)
             | Some _ \<Rightarrow> Inl (AttributeError ''entry_id'')))"

definition ConfigManagerFlowResourceView_get ::
  "(request \<Rightarrow> string \<Rightarrow> 'st \<Rightarrow> (error + 'r) \<times> 'st) \<Rightarrow> request \<Rightarrow> string \<Rightarrow> 'st
     \<Rightarrow> (error + 'r) \<times> 'st" where
  "ConfigManagerFlowResourceView_get super_get req fid hass =
     (if \<not> is_admin (hass_user req)
      then (Inl (Unauthorized None (Some CAT_CONFIG_ENTRIES) (Some ''add'')), hass)
      else super_get req fid hass)"

definition ConfigManagerFlowResourceView_post ::
  "(request \<Rightarrow> string \<Rightarrow> 'st \<Rightarrow> (error + 'r) \<times> 'st) \<Rightarrow> request \<Rightarrow> string \<Rightarrow> 'st
     \<Rightarrow> (error + 'r) \<times> 'st" where
  "ConfigManagerFlowResourceView_post super_post req fid hass =
     (if \<not> is_admin (hass_user req)
      then (Inl (Unauthorized None (Some CAT_CONFIG_ENTRIES) (Some ''add'')), hass)
      else super_post req fid hass)"

definition ConfigManagerFlowResourceView_prepare_result_json ::
  "('s step_result \<Rightarrow> error + 's step_result) \<Rightarrow> 's step_result \<Rightarrow> error + 's step_result"
  where
  "ConfigManagerFlowResourceView_prepare_result_json super_prepare_result_json result =
     (case result ''type'' of
        None \<Rightarrow> Inl (KeyError ''type'')
      | Some t \<Rightarrow>
          if t \<noteq> PJson (JStr RESULT_TYPE_CREATE_ENTRY) then super_prepare_result_json result
          else
            (case result ''result'' of
               None \<Rightarrow> Inl (KeyError ''result'')
             | Some (PEntry entry) \<Rightarrow>
                 (case pop (result(''result'' \<mapsto> PJson (JStr (entry_id entry)))) ''data'' of
                    Inl e \<Rightarrow> Inl e
                  | Inr (_, prepared) \<Rightarrow> Inr prepared)
             | Some _ \<Rightarrow> Inl (AttributeError ''entry_id'')))"

subsection \<open>\<^verbatim>\<open>OptionManagerFlowIndexView\<close> and \<^verbatim>\<open>OptionManagerFlowResourceView\<close>\<close>

definition OptionManagerFlowIndexView_post ::
  "(request \<Rightarrow> 'st \<Rightarrow> (error + 'r) \<times> 'st) \<Rightarrow> request \<Rightarrow> 'st \<Rightarrow> (error + 'r) \<times> 'st" where
  "OptionManagerFlowIndexView_post super_post req hass =
     (if \<not> is_admin (hass_user req)
      then (Inl (Unauthorized None (Some CAT_CONFIG_ENTRIES) (Some ''edit'')), hass)
      else super_post req hass)"

definition OptionManagerFlowResourceView_get ::
  "(request \<Rightarrow> string \<Rightarrow> 'st \<Rightarrow> (error + 'r) \<times> 'st) \<Rightarrow> request \<Rightarrow> string \<Rightarrow> 'st
     \<Rightarrow> (error + 'r) \<times> 'st" where
  "OptionManagerFlowResourceView_get super_get req fid hass =
     (if \<not> is_admin (hass_user req)
      then (Inl (Unauthorized None (Some CAT_CONFIG_ENTRIES) (Some ''edit'')), hass)
      else super_get req fid hass)"

definition OptionManagerFlowResourceView_post ::
  "(request \<Rightarrow> string \<Rightarrow> 'st \<Rightarrow> (error + 'r) \<times> 'st) \<Rightarrow> request \<Rightarrow> string \<Rightarrow> 'st
     \<Rightarrow> (error + 'r) \<times> 'st" where
  "OptionManagerFlowResourceView_post super_post req fid hass =
     (if \<not> is_admin (hass_user req)
      then (Inl (Unauthorized None (Some CAT_CONFIG_ENTRIES) (Some ''edit'')), hass)
      else super_post req fid hass)"

subsection \<open>The websocket commands\<close>

text \<open>
  Modelled from the spec: the decorator \<^verbatim>\<open>websocket_api.require_admin\<close> is not part of
  the source at hand. By section 6 a caller who is not authorised is refused with
  \<^verbatim>\<open>Unauthorized\<close> and the command does not run.
\<close>

definition require_admin ::
  "('h hass \<Rightarrow> connection \<Rightarrow> (string \<rightharpoonup> json) \<Rightarrow> 'h ws_outcome)
     \<Rightarrow> 'h hass \<Rightarrow> connection \<Rightarrow> (string \<rightharpoonup> json) \<Rightarrow> 'h ws_outcome" where
  "require_admin func hass conn msg =
     (if \<not> is_admin (conn_user conn) then (Inl (Unauthorized None None None), hass, conn)
      else func hass conn msg)"

text \<open>
  Modelled from the spec: \<^verbatim>\<open>async_get_entry\<close> is not part of the source at hand. It is
  \<^verbatim>\<open>EntryRegistry.get\<close> of section 4.3: the entry with this id, or nothing.
\<close>

definition has_entry_id :: "json \<Rightarrow> config_entry \<Rightarrow> bool" where
  "has_entry_id eid entry = (JStr (entry_id entry) = eid)"

definition async_get_entry :: "'h hass \<Rightarrow> json \<Rightarrow> config_entry option" where
  "async_get_entry hass eid = find (has_entry_id eid) (entries hass)"

definition system_options_list ::
  "'h hass \<Rightarrow> connection \<Rightarrow> (string \<rightharpoonup> json) \<Rightarrow> 'h ws_outcome" where
  "system_options_list hass conn msg =
     (case getitem msg ''entry_id'' of
        Inl e \<Rightarrow> (Inl e, hass, conn)
      | Inr eid \<Rightarrow>
          (case async_get_entry hass eid of
             None \<Rightarrow> (Inr (), hass, conn)
           | Some entry \<Rightarrow>
               (case getitem msg ''id'' of
                  Inl e \<Rightarrow> (Inl e, hass, conn)
                | Inr msg_id \<Rightarrow>
                    (Inr (), hass, send_result conn msg_id (as_dict (system_options entry))))))"

text \<open>
  The first lines of \<^verbatim>\<open>system_options_update\<close>: the copy of the message without the keys
  \<^verbatim>\<open>id\<close>, \<^verbatim>\<open>type\<close> and \<^verbatim>\<open>entry_id\<close>, and the entry id that was popped.
\<close>

definition update_changes ::
  "(string \<rightharpoonup> json) \<Rightarrow> error + (json \<times> (string \<rightharpoonup> json))" where
  "update_changes msg =
     (case pop msg ''id'' of
        Inl e \<Rightarrow> Inl e
      | Inr (_, c1) \<Rightarrow>
          (case pop c1 ''type'' of
             Inl e \<Rightarrow> Inl e
           | Inr (_, c2) \<Rightarrow>
               (case pop c2 ''entry_id'' of
                  Inl e \<Rightarrow> Inl e
                | Inr (eid, changes) \<Rightarrow> Inr (eid, changes))))"

text \<open>
  The entry that \<^verbatim>\<open>async_get_entry\<close> returns is an object of the registry, and
  \<^verbatim>\<open>async_update_entry\<close> mutates it in place: in the list of entries, the first entry
  with this id is replaced by the updated one.
\<close>

fun update_first :: "('a \<Rightarrow> bool) \<Rightarrow> ('a \<Rightarrow> 'a) \<Rightarrow> 'a list \<Rightarrow> 'a list" where
  "update_first P f [] = []"
| "update_first P f (x # xs) = (if P x then f x # xs else x # update_first P f xs)"

text \<open>
  What \<^verbatim>\<open>async_update_entry(entry, system_options=changes)\<close> does to the entry is a
  parameter (\<open>update_entry\<close>): the call returns or raises, and leaves the entry in a new
  state either way. When it raises, the exception leaves the command at line 281, before
  anything is sent. The command \<^verbatim>\<open>system_options_update\<close> has the suffix \<open>_command\<close>
  here, its own name being the update function of the record field \<open>system_options\<close>.
\<close>

definition system_options_update_command ::
  "(config_entry \<Rightarrow> (string \<rightharpoonup> json) \<Rightarrow> (error + unit) \<times> config_entry)
     \<Rightarrow> 'h hass \<Rightarrow> connection \<Rightarrow> (string \<rightharpoonup> json) \<Rightarrow> 'h ws_outcome" where
  "system_options_update_command update_entry hass conn msg =
     (case update_changes msg of
        Inl e \<Rightarrow> (Inl e, hass, conn)
      | Inr (eid, changes) \<Rightarrow>
          (case async_get_entry hass eid of
             None \<Rightarrow>
               (case getitem msg ''id'' of
                  Inl e \<Rightarrow> (Inl e, hass, conn)
                | Inr msg_id \<Rightarrow>
                    (Inr (), hass, send_error conn msg_id ERR_NOT_FOUND ''Config entry not found''))
           | Some entry \<Rightarrow>
               (let hass' = hass\<lparr>entries :=
                      update_first (has_entry_id eid) (\<lambda>e. snd (update_entry e changes))
                        (entries hass)\<rparr>
                in
                  (case update_entry entry changes of
                     (Inl e, _) \<Rightarrow> (Inl e, hass', conn)
                   | (Inr _, entry') \<Rightarrow>
                       (case getitem msg ''id'' of
                          Inl e \<Rightarrow> (Inl e, hass', conn)
                        | Inr msg_id \<Rightarrow>
                            (Inr (), hass',
                             send_result conn msg_id (as_dict (system_options entry'))))))))"



text \<open>
  Modelled from the spec: \<^verbatim>\<open>EntryRegistry.update_system_options\<close> of section 4.3, which
  merges only the recognised key \<^verbatim>\<open>disable_new_entities\<close> into \<open>system_options\<close> and
  ignores every other key. It is one instance of the parameter \<open>update_entry\<close>, and it
  never raises.
\<close>

definition merge_system_options ::
  "config_entry \<Rightarrow> (string \<rightharpoonup> json) \<Rightarrow> (error + unit) \<times> config_entry" where
  "merge_system_options entry changes =
     (case changes ''disable_new_entities'' of
        Some (JBool b) \<Rightarrow>
          (Inr (), entry\<lparr>system_options := (system_options entry)\<lparr>disable_new_entities := b\<rparr>\<rparr>)
      | _ \<Rightarrow> (Inr (), entry))"


text \<open>
  Modelled from the spec: \<^verbatim>\<open>EntryRegistry.remove\<close> of section 4.3, one instance of the
  parameter \<open>async_remove\<close>. It fails with \<^verbatim>\<open>UnknownEntry\<close> if the entry is absent;
  otherwise it deletes the record and returns the outcome of the unload, which is
  external (\<open>unload\<close>).
\<close>

definition remove_entry ::
  "(config_entry \<Rightarrow> json) \<Rightarrow> 'h hass \<Rightarrow> string \<Rightarrow> (error + json) \<times> 'h hass" where
  "remove_entry unload hass eid =
     (case async_get_entry hass (JStr eid) of
        None \<Rightarrow> (Inl UnknownEntry, hass)
      | Some entry \<Rightarrow>
          (Inr (unload entry), hass\<lparr>entries := filter (\<lambda>e. entry_id e \<noteq> eid) (entries hass)\<rparr>))"

subsection \<open>Concrete inputs\<close>

text \<open>The entry, flows, results and messages at which the theorems below are evaluated.\<close>

definition example_entry :: config_entry where
  "example_entry =
     \<lparr>entry_id = ''E1'', domain = ''demo'', title = ''x'',
      data = JDict [(''name'', JStr ''x'')], source = ''user'', state = ''not_loaded'',
      connection_class = ''local_push'',
      system_options = \<lparr>disable_new_entities = False\<rparr>\<rparr>"

definition example_entry_hue :: config_entry where
  "example_entry_hue =
     \<lparr>entry_id = ''E2'', domain = ''hue'', title = ''bridge'',
      data = JDict [(''host'', JStr ''10.0.0.2'')], source = ''discovery'', state = ''loaded'',
      connection_class = ''local_push'',
      system_options = \<lparr>disable_new_entities = False\<rparr>\<rparr>"

definition example_entry_gone :: config_entry where
  "example_entry_gone =
     \<lparr>entry_id = ''E3'', domain = ''custom'', title = ''old'',
      data = JDict [], source = ''import'', state = ''not_loaded'',
      connection_class = ''unknown'',
      system_options = \<lparr>disable_new_entities = True\<rparr>\<rparr>"

definition example_handlers :: "string \<rightharpoonup> handler_class" where
  "example_handlers =
     [''demo'' \<mapsto> \<lparr>async_get_options_flow = ConfigFlow_async_get_options_flow\<rparr>,
      ''hue'' \<mapsto> \<lparr>async_get_options_flow = Override_async_get_options_flow ''HueFlowHandler''\<rparr>]"

definition example_flow_user :: "nat flow" where
  "example_flow_user =
     \<lparr>flow_id = ''F1'', handler_key = ''demo'', flow_context = [(''source'', JStr ''user'')],
      current_step_id = ''user'', handler_instance = 1\<rparr>"

definition example_flow_discovery :: "nat flow" where
  "example_flow_discovery =
     \<lparr>flow_id = ''F2'', handler_key = ''hue'', flow_context = [(''source'', JStr ''discovery'')],
      current_step_id = ''link'', handler_instance = 2\<rparr>"

definition example_hass :: "nat hass" where
  "example_hass =
     \<lparr>entries = [example_entry, example_entry_hue, example_entry_gone],
      progress = [example_flow_user, example_flow_discovery]\<rparr>"

definition example_admin :: request where
  "example_admin = \<lparr>hass_user = \<lparr>is_admin = True\<rparr>\<rparr>"

definition example_guest :: request where
  "example_guest = \<lparr>hass_user = \<lparr>is_admin = False\<rparr>\<rparr>"

definition example_admin_connection :: connection where
  "example_admin_connection = \<lparr>conn_user = \<lparr>is_admin = True\<rparr>, sent = []\<rparr>"

definition example_guest_connection :: connection where
  "example_guest_connection = \<lparr>conn_user = \<lparr>is_admin = False\<rparr>, sent = []\<rparr>"

definition example_create_entry :: "string list step_result" where
  "example_create_entry =
     [''type'' \<mapsto> PJson (JStr RESULT_TYPE_CREATE_ENTRY),
      ''title'' \<mapsto> PJson (JStr ''x''),
      ''data'' \<mapsto> PJson (JDict [(''name'', JStr ''x'')]),
      ''result'' \<mapsto> PEntry example_entry]"

definition example_abort :: "string list step_result" where
  "example_abort =
     [''type'' \<mapsto> PJson (JStr ''abort''), ''reason'' \<mapsto> PJson (JStr ''already_configured'')]"

definition example_form_no_schema :: "string list step_result" where
  "example_form_no_schema =
     [''type'' \<mapsto> PJson (JStr RESULT_TYPE_FORM), ''step_id'' \<mapsto> PJson (JStr ''confirm''),
      ''data_schema'' \<mapsto> PJson JNull]"

definition example_form :: "string list step_result" where
  "example_form =
     [''type'' \<mapsto> PJson (JStr RESULT_TYPE_FORM), ''step_id'' \<mapsto> PJson (JStr ''user''),
      ''data_schema'' \<mapsto> PSchema [''host'', ''port'']]"

text \<open>A schema is the list of its field names here, and a descriptor holds the name.\<close>

definition example_convert :: "string list pyval \<Rightarrow> json list" where
  "example_convert v =
     (case v of PSchema names \<Rightarrow> map (\<lambda>n. JDict [(''name'', JStr n)]) names | _ \<Rightarrow> [])"

text \<open>A base \<^verbatim>\<open>post\<close> that counts the flows it has created or advanced.\<close>

definition example_index_post :: "request \<Rightarrow> nat \<Rightarrow> (error + response) \<times> nat" where
  "example_index_post req n = (Inr (View_json (JInt (int n))), Suc n)"

definition example_resource_post :: "request \<Rightarrow> string \<Rightarrow> nat \<Rightarrow> (error + response) \<times> nat" where
  "example_resource_post req fid n = (Inr (View_json (JStr fid)), Suc n)"

definition example_unload :: "config_entry \<Rightarrow> json" where
  "example_unload entry = JDict [(''require_restart'', JBool False)]"

definition example_list_message :: "string \<rightharpoonup> json" where
  "example_list_message =
     [''id'' \<mapsto> JInt 5, ''type'' \<mapsto> JStr ''config_entries/system_options/list'',
      ''entry_id'' \<mapsto> JStr ''missing'']"

definition example_update_message :: "string \<rightharpoonup> json" where
  "example_update_message =
     [''id'' \<mapsto> JInt 6, ''type'' \<mapsto> JStr ''config_entries/system_options/update'',
      ''entry_id'' \<mapsto> JStr ''E1'', ''disable_new_entities'' \<mapsto> JBool True]"




section \<open>Properties\<close>

subsection \<open>Preparing a step result\<close>

lemma index_create_entry_returns:
  assumes "result ''type'' = Some (PJson (JStr RESULT_TYPE_CREATE_ENTRY))"
    and "result ''result'' = Some (PEntry entry)"
    and "result ''data'' = Some d"
  shows "ConfigManagerFlowIndexView_prepare_result_json base result =
           Inr (result(''result'' \<mapsto> PJson (JStr (entry_id entry)), ''data'' := None))"
  using assms by (simp add: ConfigManagerFlowIndexView_prepare_result_json_def pop_def)

lemma index_create_entry_prepared:
  assumes "result ''type'' = Some (PJson (JStr RESULT_TYPE_CREATE_ENTRY))"
    and "ConfigManagerFlowIndexView_prepare_result_json base result = Inr prepared"
  shows "prepared ''data'' = None \<and>
         (\<exists>entry. result ''result'' = Some (PEntry entry) \<and>
                  prepared ''result'' = Some (PJson (JStr (entry_id entry))))"
  using assms
  by (auto simp: ConfigManagerFlowIndexView_prepare_result_json_def pop_def
      split: option.splits pyval.splits if_splits)

lemma index_other_type:
  assumes "result ''type'' = Some t" and "t \<noteq> PJson (JStr RESULT_TYPE_CREATE_ENTRY)"
  shows "ConfigManagerFlowIndexView_prepare_result_json base result = base result"
  using assms by (simp add: ConfigManagerFlowIndexView_prepare_result_json_def)

lemma resource_create_entry_returns:
  assumes "result ''type'' = Some (PJson (JStr RESULT_TYPE_CREATE_ENTRY))"
    and "result ''result'' = Some (PEntry entry)"
    and "result ''data'' = Some d"
  shows "ConfigManagerFlowResourceView_prepare_result_json base result =
           Inr (result(''result'' \<mapsto> PJson (JStr (entry_id entry)), ''data'' := None))"
  using assms by (simp add: ConfigManagerFlowResourceView_prepare_result_json_def pop_def)

lemma resource_create_entry_prepared:
  assumes "result ''type'' = Some (PJson (JStr RESULT_TYPE_CREATE_ENTRY))"
    and "ConfigManagerFlowResourceView_prepare_result_json base result = Inr prepared"
  shows "prepared ''data'' = None \<and>
         (\<exists>entry. result ''result'' = Some (PEntry entry) \<and>
                  prepared ''result'' = Some (PJson (JStr (entry_id entry))))"
  using assms
  by (auto simp: ConfigManagerFlowResourceView_prepare_result_json_def pop_def
      split: option.splits pyval.splits if_splits)

lemma resource_other_type:
  assumes "result ''type'' = Some t" and "t \<noteq> PJson (JStr RESULT_TYPE_CREATE_ENTRY)"
  shows "ConfigManagerFlowResourceView_prepare_result_json base result = base result"
  using assms by (simp add: ConfigManagerFlowResourceView_prepare_result_json_def)

text \<open>
  Claim C1. For a step result of type CREATE_ENTRY, what \<^verbatim>\<open>_prepare_result_json\<close> of the
  flow index view and of the flow resource view returns has no key \<^verbatim>\<open>data\<close>, and its
  \<^verbatim>\<open>result\<close> is the \<open>entry_id\<close> of the entry created: a result that carries the entry
  and a \<^verbatim>\<open>data\<close> key is prepared to itself with these two changes, and nothing else
  is ever returned for this type. A result of any other type is handed to the base
  preparation as it is.
\<close>

theorem C1_create_entry_data_stripped:
  "(result ''type'' = Some (PJson (JStr RESULT_TYPE_CREATE_ENTRY)) \<longrightarrow>
      (\<forall>entry d. result ''result'' = Some (PEntry entry) \<and> result ''data'' = Some d \<longrightarrow>
         ConfigManagerFlowIndexView_prepare_result_json base result =
           Inr (result(''result'' \<mapsto> PJson (JStr (entry_id entry)), ''data'' := None)) \<and>
         ConfigManagerFlowResourceView_prepare_result_json base result =
           Inr (result(''result'' \<mapsto> PJson (JStr (entry_id entry)), ''data'' := None))) \<and>
      (\<forall>prepared.
         ConfigManagerFlowIndexView_prepare_result_json base result = Inr prepared \<or>
         ConfigManagerFlowResourceView_prepare_result_json base result = Inr prepared \<longrightarrow>
           prepared ''data'' = None \<and>
           (\<exists>entry. result ''result'' = Some (PEntry entry) \<and>
                    prepared ''result'' = Some (PJson (JStr (entry_id entry)))))) \<and>
   (\<forall>t. result ''type'' = Some t \<and> t \<noteq> PJson (JStr RESULT_TYPE_CREATE_ENTRY) \<longrightarrow>
      ConfigManagerFlowIndexView_prepare_result_json base result = base result \<and>
      ConfigManagerFlowResourceView_prepare_result_json base result = base result)"
  using index_create_entry_returns [of result] resource_create_entry_returns [of result]
    index_create_entry_prepared [of result base] resource_create_entry_prepared [of result base]
    index_other_type [of result _ base] resource_other_type [of result _ base]
  by blast

theorem C1_create_entry_data_stripped_witness:
  "ConfigManagerFlowIndexView_prepare_result_json Inr example_create_entry =
     Inr (example_create_entry(''result'' \<mapsto> PJson (JStr ''E1''), ''data'' := None)) \<and>
   ConfigManagerFlowResourceView_prepare_result_json Inr example_create_entry =
     Inr (example_create_entry(''result'' \<mapsto> PJson (JStr ''E1''), ''data'' := None)) \<and>
   (example_create_entry(''result'' \<mapsto> PJson (JStr ''E1''), ''data'' := None)) ''data'' = None \<and>
   (example_create_entry(''result'' \<mapsto> PJson (JStr ''E1''), ''data'' := None)) ''result'' =
     Some (PJson (JStr ''E1'')) \<and>
   ConfigManagerFlowIndexView_prepare_result_json Inr example_abort = Inr example_abort \<and>
   ConfigManagerFlowResourceView_prepare_result_json Inr example_abort = Inr example_abort"
proof -
  have ty: "example_create_entry ''type'' = Some (PJson (JStr RESULT_TYPE_CREATE_ENTRY))"
    by (simp add: example_create_entry_def)
  have res: "example_create_entry ''result'' = Some (PEntry example_entry)"
    by (simp add: example_create_entry_def)
  have dat: "example_create_entry ''data'' = Some (PJson (JDict [(''name'', JStr ''x'')]))"
    by (simp add: example_create_entry_def)
  have eid: "entry_id example_entry = ''E1''"
    by (simp add: example_entry_def)
  have aty: "example_abort ''type'' = Some (PJson (JStr ''abort''))"
    by (simp add: example_abort_def)
  have ane: "PJson (JStr ''abort'') \<noteq> (PJson (JStr RESULT_TYPE_CREATE_ENTRY) :: string list pyval)"
    by (simp add: RESULT_TYPE_CREATE_ENTRY_def)
  from C1_create_entry_data_stripped [of example_create_entry Inr] ty res dat eid
  have a: "ConfigManagerFlowIndexView_prepare_result_json Inr example_create_entry =
     Inr (example_create_entry(''result'' \<mapsto> PJson (JStr ''E1''), ''data'' := None)) \<and>
   ConfigManagerFlowResourceView_prepare_result_json Inr example_create_entry =
     Inr (example_create_entry(''result'' \<mapsto> PJson (JStr ''E1''), ''data'' := None))"
    by metis
  from C1_create_entry_data_stripped [of example_abort Inr] aty ane
  have b: "ConfigManagerFlowIndexView_prepare_result_json Inr example_abort = Inr example_abort \<and>
   ConfigManagerFlowResourceView_prepare_result_json Inr example_abort = Inr example_abort"
    by blast
  from a b show ?thesis by simp
qed

text \<open>
  Claim C10. \<^verbatim>\<open>_prepare_result_json\<close> of the flow index view and of the flow resource
  view give the same output on every step result, for the same base preparation.
\<close>

theorem C10_prepare_result_json_equal:
  "ConfigManagerFlowIndexView_prepare_result_json base result =
   ConfigManagerFlowResourceView_prepare_result_json base result"
  by (simp add: ConfigManagerFlowIndexView_prepare_result_json_def
      ConfigManagerFlowResourceView_prepare_result_json_def)

text \<open>
  Claim C7. \<^verbatim>\<open>_prepare_json\<close> returns a result of a type other than FORM unchanged; in a
  FORM result it replaces a schema that is None by the empty list, and any other schema
  by the list of field descriptors that \<^verbatim>\<open>voluptuous_serialize.convert\<close> gives for it.
\<close>

theorem C7_prepare_json_form_schema:
  "(\<forall>t. result ''type'' = Some t \<and> t \<noteq> PJson (JStr RESULT_TYPE_FORM) \<longrightarrow>
      prepare_json convert result = Inr result) \<and>
   (result ''type'' = Some (PJson (JStr RESULT_TYPE_FORM)) \<longrightarrow>
      (result ''data_schema'' = Some (PJson JNull) \<longrightarrow>
         prepare_json convert result = Inr (result(''data_schema'' \<mapsto> PJson (JList [])))) \<and>
      (\<forall>schema. result ''data_schema'' = Some schema \<and> schema \<noteq> PJson JNull \<longrightarrow>
         prepare_json convert result =
           Inr (result(''data_schema'' \<mapsto> PJson (JList (convert schema))))))"
  by (simp add: prepare_json_def)

theorem C7_prepare_json_form_schema_witness:
  "prepare_json example_convert example_abort = Inr example_abort \<and>
   prepare_json example_convert example_form_no_schema =
     Inr (example_form_no_schema(''data_schema'' \<mapsto> PJson (JList []))) \<and>
   prepare_json example_convert example_form =
     Inr (example_form(''data_schema'' \<mapsto>
       PJson (JList [JDict [(''name'', JStr ''host'')], JDict [(''name'', JStr ''port'')]])))"
proof -
  have a: "example_abort ''type'' = Some (PJson (JStr ''abort'')) \<and>
      PJson (JStr ''abort'') \<noteq> (PJson (JStr RESULT_TYPE_FORM) :: string list pyval)"
    by (simp add: example_abort_def RESULT_TYPE_FORM_def)
  have n: "example_form_no_schema ''type'' = Some (PJson (JStr RESULT_TYPE_FORM)) \<and>
      example_form_no_schema ''data_schema'' = Some (PJson JNull)"
    by (simp add: example_form_no_schema_def)
  have f: "example_form ''type'' = Some (PJson (JStr RESULT_TYPE_FORM)) \<and>
      example_form ''data_schema'' = Some (PSchema [''host'', ''port'']) \<and>
      PSchema [''host'', ''port''] \<noteq> (PJson JNull :: string list pyval)"
    by (simp add: example_form_def)
  have c: "example_convert (PSchema [''host'', ''port'']) =
      [JDict [(''name'', JStr ''host'')], JDict [(''name'', JStr ''port'')]]"
    by (simp add: example_convert_def)
  from C7_prepare_json_form_schema [of example_abort example_convert] a
  have 1: "prepare_json example_convert example_abort = Inr example_abort"
    by blast
  from C7_prepare_json_form_schema [of example_form_no_schema example_convert] n
  have 2: "prepare_json example_convert example_form_no_schema =
     Inr (example_form_no_schema(''data_schema'' \<mapsto> PJson (JList [])))"
    by blast
  from C7_prepare_json_form_schema [of example_form example_convert] f
  have "prepare_json example_convert example_form =
     Inr (example_form(''data_schema'' \<mapsto>
       PJson (JList (example_convert (PSchema [''host'', ''port''])))))"
    by blast
  with c 1 2 show ?thesis by simp
qed

text \<open>
  Claim C9. The entry list answers with one dictionary for each entry, in order; the
  keys of a dictionary are exactly \<^verbatim>\<open>entry_id\<close>, \<^verbatim>\<open>domain\<close>, \<^verbatim>\<open>title\<close>, \<^verbatim>\<open>source\<close>,
  \<^verbatim>\<open>state\<close>, \<^verbatim>\<open>connection_class\<close> and \<^verbatim>\<open>supports_options\<close>, with the values of the
  entry, and neither \<^verbatim>\<open>data\<close> nor \<^verbatim>\<open>system_options\<close>; \<^verbatim>\<open>supports_options\<close> is true
  exactly when a handler is registered for the domain of the entry and its
  \<^verbatim>\<open>async_get_options_flow\<close> is not the one of \<^verbatim>\<open>ConfigFlow\<close>.
\<close>

theorem C9_entry_index_fields:
  "ConfigManagerEntryIndexView_get HANDLERS req hass =
     (Inr (View_json (JList (map (entry_json HANDLERS) (entries hass)))), hass) \<and>
   (\<forall>entry \<in> set (entries hass). \<exists>kvs.
      entry_json HANDLERS entry = JDict kvs \<and>
      map fst kvs =
        [''entry_id'', ''domain'', ''title'', ''source'', ''state'', ''connection_class'',
         ''supports_options''] \<and>
      map snd kvs =
        [JStr (entry_id entry), JStr (domain entry), JStr (title entry), JStr (source entry),
         JStr (state entry), JStr (connection_class entry),
         JBool (\<exists>handler. HANDLERS (domain entry) = Some handler \<and>
                  async_get_options_flow handler \<noteq> ConfigFlow_async_get_options_flow)] \<and>
      map_of kvs ''data'' = None \<and> map_of kvs ''system_options'' = None)"
  by (auto simp: ConfigManagerEntryIndexView_get_def async_entries_def entry_json_def
      supports_options_of_def split: option.splits)

theorem C9_entry_index_fields_witness:
  "ConfigManagerEntryIndexView_get example_handlers example_admin example_hass =
     (Inr (View_json (JList
        [JDict [(''entry_id'', JStr ''E1''), (''domain'', JStr ''demo''), (''title'', JStr ''x''),
                (''source'', JStr ''user''), (''state'', JStr ''not_loaded''),
                (''connection_class'', JStr ''local_push''), (''supports_options'', JBool False)],
         JDict [(''entry_id'', JStr ''E2''), (''domain'', JStr ''hue''), (''title'', JStr ''bridge''),
                (''source'', JStr ''discovery''), (''state'', JStr ''loaded''),
                (''connection_class'', JStr ''local_push''), (''supports_options'', JBool True)],
         JDict [(''entry_id'', JStr ''E3''), (''domain'', JStr ''custom''), (''title'', JStr ''old''),
                (''source'', JStr ''import''), (''state'', JStr ''not_loaded''),
                (''connection_class'', JStr ''unknown''), (''supports_options'', JBool False)]])),
      example_hass)"
proof -
  have e: "entries example_hass = [example_entry, example_entry_hue, example_entry_gone]"
    by (simp add: example_hass_def)
  have j: "map (entry_json example_handlers) [example_entry, example_entry_hue, example_entry_gone] =
        [JDict [(''entry_id'', JStr ''E1''), (''domain'', JStr ''demo''), (''title'', JStr ''x''),
                (''source'', JStr ''user''), (''state'', JStr ''not_loaded''),
                (''connection_class'', JStr ''local_push''), (''supports_options'', JBool False)],
         JDict [(''entry_id'', JStr ''E2''), (''domain'', JStr ''hue''), (''title'', JStr ''bridge''),
                (''source'', JStr ''discovery''), (''state'', JStr ''loaded''),
                (''connection_class'', JStr ''local_push''), (''supports_options'', JBool True)],
         JDict [(''entry_id'', JStr ''E3''), (''domain'', JStr ''custom''), (''title'', JStr ''old''),
                (''source'', JStr ''import''), (''state'', JStr ''not_loaded''),
                (''connection_class'', JStr ''unknown''), (''supports_options'', JBool False)]]"
    by (simp add: entry_json_def supports_options_of_def example_handlers_def example_entry_def
        example_entry_hue_def example_entry_gone_def)
  from C9_entry_index_fields [of example_handlers example_admin example_hass]
  have "ConfigManagerEntryIndexView_get example_handlers example_admin example_hass =
     (Inr (View_json (JList (map (entry_json example_handlers) (entries example_hass)))),
      example_hass)"
    by blast
  with e j show ?thesis by simp
qed

text \<open>
  Claim C6. For an admin, a delete whose removal raises \<^verbatim>\<open>UnknownEntry\<close> answers with
  the message \<^verbatim>\<open>Invalid entry specified\<close> and status 404, and a delete whose removal
  succeeds answers with the removal outcome as JSON.
\<close>

theorem C6_delete_unknown_entry_404:
  "is_admin (hass_user req) \<longrightarrow>
     (\<forall>hass'. async_remove hass eid = (Inl UnknownEntry, hass') \<longrightarrow>
        ConfigManagerEntryResourceView_delete async_remove req eid hass =
          (Inr (View_json_message ''Invalid entry specified'' 404), hass')) \<and>
     (\<forall>res hass'. async_remove hass eid = (Inr res, hass') \<longrightarrow>
        ConfigManagerEntryResourceView_delete async_remove req eid hass =
          (Inr (View_json res), hass'))"
  by (simp add: ConfigManagerEntryResourceView_delete_def)

theorem C6_delete_unknown_entry_404_witness:
  "ConfigManagerEntryResourceView_delete (remove_entry example_unload) example_admin ''missing''
     example_hass =
     (Inr (View_json_message ''Invalid entry specified'' 404), example_hass) \<and>
   ConfigManagerEntryResourceView_delete (remove_entry example_unload) example_admin ''E2''
     example_hass =
     (Inr (View_json (JDict [(''require_restart'', JBool False)])),
      example_hass\<lparr>entries := [example_entry, example_entry_gone]\<rparr>)"
proof -
  have adm: "is_admin (hass_user example_admin)"
    by (simp add: example_admin_def)
  have miss: "remove_entry example_unload example_hass ''missing'' = (Inl UnknownEntry, example_hass)"
    by (simp add: remove_entry_def async_get_entry_def has_entry_id_def example_hass_def
        example_entry_def example_entry_hue_def example_entry_gone_def)
  have found: "remove_entry example_unload example_hass ''E2'' =
      (Inr (JDict [(''require_restart'', JBool False)]),
       example_hass\<lparr>entries := [example_entry, example_entry_gone]\<rparr>)"
    by (simp add: remove_entry_def async_get_entry_def has_entry_id_def example_hass_def
        example_entry_def example_entry_hue_def example_entry_gone_def example_unload_def)
  from C6_delete_unknown_entry_404 [of example_admin "remove_entry example_unload" example_hass
      "''missing''"] adm miss
  have 1: "ConfigManagerEntryResourceView_delete (remove_entry example_unload) example_admin
      ''missing'' example_hass =
     (Inr (View_json_message ''Invalid entry specified'' 404), example_hass)"
    by blast
  from C6_delete_unknown_entry_404 [of example_admin "remove_entry example_unload" example_hass
      "''E2''"] adm found
  have 2: "ConfigManagerEntryResourceView_delete (remove_entry example_unload) example_admin ''E2''
     example_hass =
     (Inr (View_json (JDict [(''require_restart'', JBool False)])),
      example_hass\<lparr>entries := [example_entry, example_entry_gone]\<rparr>)"
    by blast
  from 1 2 show ?thesis by simp
qed

text \<open>
  Claim C2. A caller who is not an admin is refused with \<^verbatim>\<open>Unauthorized\<close> and the state
  is left as it was, whatever the operation behind the check would do: creating and
  advancing a config flow with the permission \<^verbatim>\<open>add\<close>, creating and advancing an
  options flow with \<^verbatim>\<open>edit\<close>, deleting an entry with \<^verbatim>\<open>remove\<close>, and the update of the
  system options through \<^verbatim>\<open>require_admin\<close>.
\<close>

theorem C2_not_admin_refused:
  "(\<not> is_admin (hass_user req) \<longrightarrow>
      ConfigManagerFlowIndexView_post index_post req st =
        (Inl (Unauthorized None (Some CAT_CONFIG_ENTRIES) (Some ''add'')), st) \<and>
      ConfigManagerFlowResourceView_post resource_post req fid st =
        (Inl (Unauthorized None (Some CAT_CONFIG_ENTRIES) (Some ''add'')), st) \<and>
      OptionManagerFlowIndexView_post index_post req st =
        (Inl (Unauthorized None (Some CAT_CONFIG_ENTRIES) (Some ''edit'')), st) \<and>
      OptionManagerFlowResourceView_post resource_post req fid st =
        (Inl (Unauthorized None (Some CAT_CONFIG_ENTRIES) (Some ''edit'')), st) \<and>
      ConfigManagerEntryResourceView_delete async_remove req eid hass =
        (Inl (Unauthorized (Some eid) None (Some ''remove'')), hass)) \<and>
   (\<not> is_admin (conn_user conn) \<longrightarrow>
      require_admin (system_options_update_command update_entry) hass conn msg =
        (Inl (Unauthorized None None None), hass, conn))"
  by (simp add: ConfigManagerFlowIndexView_post_def ConfigManagerFlowResourceView_post_def
      OptionManagerFlowIndexView_post_def OptionManagerFlowResourceView_post_def
      ConfigManagerEntryResourceView_delete_def require_admin_def)

theorem C2_not_admin_refused_witness:
  "ConfigManagerFlowIndexView_post example_index_post example_guest (3::nat) =
     (Inl (Unauthorized None (Some CAT_CONFIG_ENTRIES) (Some ''add'')), 3) \<and>
   ConfigManagerFlowResourceView_post example_resource_post example_guest ''F1'' (3::nat) =
     (Inl (Unauthorized None (Some CAT_CONFIG_ENTRIES) (Some ''add'')), 3) \<and>
   OptionManagerFlowIndexView_post example_index_post example_guest (3::nat) =
     (Inl (Unauthorized None (Some CAT_CONFIG_ENTRIES) (Some ''edit'')), 3) \<and>
   OptionManagerFlowResourceView_post example_resource_post example_guest ''F1'' (3::nat) =
     (Inl (Unauthorized None (Some CAT_CONFIG_ENTRIES) (Some ''edit'')), 3) \<and>
   ConfigManagerEntryResourceView_delete (remove_entry example_unload) example_guest ''E1''
     example_hass =
     (Inl (Unauthorized (Some ''E1'') None (Some ''remove'')), example_hass) \<and>
   require_admin (system_options_update_command merge_system_options) example_hass
     example_guest_connection example_update_message =
     (Inl (Unauthorized None None None), example_hass, example_guest_connection) \<and>
   example_index_post example_guest 3 = (Inr (View_json (JInt 3)), 4)"
proof -
  have g: "\<not> is_admin (hass_user example_guest)"
    by (simp add: example_guest_def)
  have c: "\<not> is_admin (conn_user example_guest_connection)"
    by (simp add: example_guest_connection_def)
  have p: "example_index_post example_guest 3 = (Inr (View_json (JInt 3)), 4)"
    by (simp add: example_index_post_def)
  from C2_not_admin_refused [of example_guest example_index_post "3::nat" example_resource_post
      "''F1''" "remove_entry example_unload" "''E1''" example_hass example_guest_connection
      merge_system_options example_update_message] g c p
  show ?thesis by blast
qed

subsection \<open>The flows in progress\<close>

lemma summary_source:
  "json_getitem (flow_summary flw) ''context'' = Inr (JDict (flow_context flw))"
  by (simp add: json_getitem_def flow_summary_def)

lemma not_user_flows_filter:
  "not_user_flows flws = Inr kept \<Longrightarrow>
     kept = filter (\<lambda>flw. \<exists>ctx src. json_getitem flw ''context'' = Inr ctx \<and>
                json_getitem ctx ''source'' = Inr src \<and> src \<noteq> JStr SOURCE_USER) flws"
proof (induction flws arbitrary: kept)
  case Nil
  then show ?case by simp
next
  case (Cons flw flws)
  from Cons.prems obtain ctx src rest where
    c: "json_getitem flw ''context'' = Inr ctx" and
    s: "json_getitem ctx ''source'' = Inr src" and
    r: "not_user_flows flws = Inr rest" and
    k: "kept = (if src \<noteq> JStr SOURCE_USER then flw # rest else rest)"
    by (simp split: sum.splits)
  from Cons.IH [OF r] have "rest = filter (\<lambda>flw. \<exists>ctx src. json_getitem flw ''context'' = Inr ctx \<and>
                json_getitem ctx ''source'' = Inr src \<and> src \<noteq> JStr SOURCE_USER) flws" .
  with c s k show ?case by simp
qed

lemma not_user_flows_summaries:
  "\<forall>flw \<in> set flws. map_of (flow_context flw) ''source'' \<noteq> None \<Longrightarrow>
     not_user_flows (map flow_summary flws) =
       Inr (map flow_summary
         (filter (\<lambda>flw. map_of (flow_context flw) ''source'' \<noteq> Some (JStr SOURCE_USER)) flws))"
proof (induction flws)
  case Nil
  then show ?case by simp
next
  case (Cons flw flws)
  then obtain src where src: "map_of (flow_context flw) ''source'' = Some src"
    by auto
  have ctx: "json_getitem (flow_summary flw) ''context'' = Inr (JDict (flow_context flw))"
    by (rule summary_source)
  have s: "json_getitem (JDict (flow_context flw)) ''source'' = Inr src"
    using src by (simp add: json_getitem_def)
  from Cons have rest: "not_user_flows (map flow_summary flws) =
       Inr (map flow_summary
         (filter (\<lambda>flw. map_of (flow_context flw) ''source'' \<noteq> Some (JStr SOURCE_USER)) flws))"
    by simp
  have "not_user_flows (map flow_summary (flw # flws)) =
      Inr (if src \<noteq> JStr SOURCE_USER
           then flow_summary flw # map flow_summary
             (filter (\<lambda>flw. map_of (flow_context flw) ''source'' \<noteq> Some (JStr SOURCE_USER)) flws)
           else map flow_summary
             (filter (\<lambda>flw. map_of (flow_context flw) ''source'' \<noteq> Some (JStr SOURCE_USER)) flws))"
    by (simp only: list.map not_user_flows.simps ctx s rest sum.case)
  then show ?case
    using src by simp
qed

text \<open>
  Claim C8. For an admin, the GET on the config flow index answers with the summaries
  of the flows in progress whose context source is not USER, in order, and leaves the
  state as it was. Whatever list it answers with is the list of the summaries that
  \<^verbatim>\<open>async_progress\<close> gives, filtered by that test, and each summary in it has the keys
  \<^verbatim>\<open>flow_id\<close>, \<^verbatim>\<open>handler_key\<close>, \<^verbatim>\<open>context\<close> and \<^verbatim>\<open>current_step_id\<close>, never the handler
  instance.
\<close>

theorem C8_flow_index_not_user:
  "is_admin (hass_user req) \<longrightarrow>
     ((\<forall>flw \<in> set (progress hass). map_of (flow_context flw) ''source'' \<noteq> None) \<longrightarrow>
        ConfigManagerFlowIndexView_get req hass =
          (Inr (View_json (JList (map flow_summary
             (filter (\<lambda>flw. map_of (flow_context flw) ''source'' \<noteq> Some (JStr SOURCE_USER))
                (progress hass))))), hass)) \<and>
     (\<forall>flws. fst (ConfigManagerFlowIndexView_get req hass) = Inr (View_json (JList flws)) \<longrightarrow>
        snd (ConfigManagerFlowIndexView_get req hass) = hass \<and>
        flws = filter (\<lambda>flw. \<exists>ctx src. json_getitem flw ''context'' = Inr ctx \<and>
                  json_getitem ctx ''source'' = Inr src \<and> src \<noteq> JStr SOURCE_USER)
                 (async_progress hass) \<and>
        (\<forall>flw \<in> set flws. \<exists>kvs. flw = JDict kvs \<and>
           map fst kvs = [''flow_id'', ''handler_key'', ''context'', ''current_step_id''] \<and>
           ''handler_instance'' \<notin> set (map fst kvs)))"
proof (intro impI conjI allI)
  assume adm: "is_admin (hass_user req)"
  assume "\<forall>flw \<in> set (progress hass). map_of (flow_context flw) ''source'' \<noteq> None"
  from not_user_flows_summaries [OF this] adm
  show "ConfigManagerFlowIndexView_get req hass =
          (Inr (View_json (JList (map flow_summary
             (filter (\<lambda>flw. map_of (flow_context flw) ''source'' \<noteq> Some (JStr SOURCE_USER))
                (progress hass))))), hass)"
    by (simp add: ConfigManagerFlowIndexView_get_def async_progress_def)
next
  fix flws
  assume adm: "is_admin (hass_user req)"
  assume r: "fst (ConfigManagerFlowIndexView_get req hass) = Inr (View_json (JList flws))"
  from adm r have k: "not_user_flows (async_progress hass) = Inr flws"
    by (simp add: ConfigManagerFlowIndexView_get_def split: sum.splits)
  from adm show "snd (ConfigManagerFlowIndexView_get req hass) = hass"
    by (simp add: ConfigManagerFlowIndexView_get_def split: sum.splits)
  from not_user_flows_filter [OF k]
  show f: "flws = filter (\<lambda>flw. \<exists>ctx src. json_getitem flw ''context'' = Inr ctx \<and>
                  json_getitem ctx ''source'' = Inr src \<and> src \<noteq> JStr SOURCE_USER)
                 (async_progress hass)" .
  show "\<forall>flw \<in> set flws. \<exists>kvs. flw = JDict kvs \<and>
           map fst kvs = [''flow_id'', ''handler_key'', ''context'', ''current_step_id''] \<and>
           ''handler_instance'' \<notin> set (map fst kvs)"
  proof
    fix flw assume "flw \<in> set flws"
    with f have "flw \<in> set (async_progress hass)"
      by simp
    then obtain x where "x \<in> set (progress hass)" and "flw = flow_summary x"
      by (auto simp: async_progress_def)
    then show "\<exists>kvs. flw = JDict kvs \<and>
           map fst kvs = [''flow_id'', ''handler_key'', ''context'', ''current_step_id''] \<and>
           ''handler_instance'' \<notin> set (map fst kvs)"
      by (simp add: flow_summary_def)
  qed
qed

theorem C8_flow_index_not_user_witness:
  "ConfigManagerFlowIndexView_get example_admin example_hass =
     (Inr (View_json (JList
        [JDict [(''flow_id'', JStr ''F2''), (''handler_key'', JStr ''hue''),
                (''context'', JDict [(''source'', JStr ''discovery'')]),
                (''current_step_id'', JStr ''link'')]])), example_hass)"
proof -
  have adm: "is_admin (hass_user example_admin)"
    by (simp add: example_admin_def)
  have p: "progress example_hass = [example_flow_user, example_flow_discovery]"
    by (simp add: example_hass_def)
  have src: "\<forall>flw \<in> set (progress example_hass). map_of (flow_context flw) ''source'' \<noteq> None"
    by (simp add: p example_flow_user_def example_flow_discovery_def)
  have f: "map flow_summary
      (filter (\<lambda>flw. map_of (flow_context flw) ''source'' \<noteq> Some (JStr SOURCE_USER))
         (progress example_hass)) =
        [JDict [(''flow_id'', JStr ''F2''), (''handler_key'', JStr ''hue''),
                (''context'', JDict [(''source'', JStr ''discovery'')]),
                (''current_step_id'', JStr ''link'')]]"
    by (simp add: p example_flow_user_def example_flow_discovery_def SOURCE_USER_def
        flow_summary_def)
  from C8_flow_index_not_user [of example_admin example_hass] adm src
  have "ConfigManagerFlowIndexView_get example_admin example_hass =
          (Inr (View_json (JList (map flow_summary
             (filter (\<lambda>flw. map_of (flow_context flw) ''source'' \<noteq> Some (JStr SOURCE_USER))
                (progress example_hass))))), example_hass)"
    by blast
  with f show ?thesis by simp
qed

subsection \<open>The system options commands\<close>

















text \<open>
  Claim C3 asks that a list request for an entry id that resolves to no entry be answered
  with an error. The command does not do so: for an admin and the id \<^verbatim>\<open>missing\<close>, which
  no entry has, it returns with nothing sent on the connection and the state unchanged.
\<close>

theorem C3_list_unknown_entry_sends_nothing:
  "require_admin system_options_list example_hass example_admin_connection example_list_message =
     (Inr (), example_hass, example_admin_connection) \<and>
   sent example_admin_connection = [] \<and>
   async_get_entry example_hass (JStr ''missing'') = None \<and>
   example_list_message ''entry_id'' = Some (JStr ''missing'')"
  by (simp add: require_admin_def system_options_list_def getitem_def async_get_entry_def
      has_entry_id_def example_hass_def example_admin_connection_def example_list_message_def
      example_entry_def example_entry_hue_def example_entry_gone_def)

end
